theory Spec2Isabelle
  imports Main "HOL-Library.AList"
begin

section \<open>JavaScript values and objects\<close>

text \<open>
  The four scripts under \<^verbatim>\<open>docs/implementors\<close> build one object literal each and
  touch two properties of \<^verbatim>\<open>window\<close>. The values they can meet are the JavaScript
  values: the falsy ones (\<^verbatim>\<open>undefined\<close>, \<^verbatim>\<open>null\<close>, \<^verbatim>\<open>false\<close>, \<^verbatim>\<open>0\<close>, \<^verbatim>\<open>NaN\<close>, the empty string)
  and the truthy ones (other primitives, arrays, objects, functions). A function value is
  an identifier; what the function does when called belongs to the page, not to the
  scripts, and is supplied by a \<open>host\<close> (below). Numbers are used here only through their
  truthiness, so integers and \<^verbatim>\<open>NaN\<close> stand for them.
\<close>

datatype jsval =
    JUndefined
  | JNull
  | JBool bool
  | JNum int
  | JNaN
  | JStr string
  | JArr "jsval list"
  | JObj "(string \<times> jsval) list"
  | JFun nat

text \<open>
  An object is the list of its own properties in insertion order, each key once.
  Reading a missing property gives \<^verbatim>\<open>undefined\<close>; writing an existing property replaces
  its value in place, writing a new one appends it.
  Only own data properties are modelled: the two window properties the scripts touch are
  plain properties set by the page, with no getter, setter or prototype behind them.
\<close>

type_synonym object = "(string \<times> jsval) list"

definition get_prop :: "object \<Rightarrow> string \<Rightarrow> jsval" where
  "get_prop obj k = (case map_of obj k of None \<Rightarrow> JUndefined | Some v \<Rightarrow> v)"

definition set_prop :: "object \<Rightarrow> string \<Rightarrow> jsval \<Rightarrow> object" where
  "set_prop obj k v = AList.update k v obj"

text \<open>An object literal \<^verbatim>\<open>{k1: v1, ...}\<close> defines its properties from left to right.\<close>

definition object_literal :: "(string \<times> jsval) list \<Rightarrow> jsval" where
  "object_literal ps = JObj (foldl (\<lambda>obj (k, v). set_prop obj k v) [] ps)"

text \<open>\<^verbatim>\<open>ToBoolean\<close>, as the \<^verbatim>\<open>if\<close> statement applies it to its condition.\<close>

fun truthy :: "jsval \<Rightarrow> bool" where
  "truthy JUndefined = False"
| "truthy JNull = False"
| "truthy (JBool b) = b"
| "truthy (JNum n) = (n \<noteq> 0)"
| "truthy JNaN = False"
| "truthy (JStr s) = (s \<noteq> [])"
| "truthy (JArr vs) = True"
| "truthy (JObj ps) = True"
| "truthy (JFun i) = True"

fun is_function :: "jsval \<Rightarrow> bool" where
  "is_function (JFun i) = True"
| "is_function _ = False"

fun is_array :: "jsval \<Rightarrow> bool" where
  "is_array (JArr vs) = True"
| "is_array _ = False"

text \<open>Every string that occurs anywhere inside a value.\<close>

fun strings_in :: "jsval \<Rightarrow> string list" where
  "strings_in (JStr s) = [s]"
| "strings_in (JArr vs) = concat (map strings_in vs)"
| "strings_in (JObj ps) = concat (map (\<lambda>(k, v). strings_in v) ps)"
| "strings_in _ = []"


section \<open>The four implementor files\<close>

datatype impl_file = DerefMut | TrySignature | TrySignatureMut | SetSignature

text \<open>The trait a file indexes is the one in its name, \<^verbatim>\<open>trait.<Trait>.js\<close>.\<close>

fun trait_of :: "impl_file \<Rightarrow> string" where
  "trait_of DerefMut = ''DerefMut''"
| "trait_of TrySignature = ''TrySignature''"
| "trait_of TrySignatureMut = ''TrySignatureMut''"
| "trait_of SetSignature = ''SetSignature''"

text \<open>One record \<^verbatim>\<open>{"text": t, "synthetic": false, "types": []}\<close> of a listing.\<close>

definition entry :: "string \<Rightarrow> jsval" where
  "entry t = object_literal
     [(''text'', JStr t), (''synthetic'', JBool False), (''types'', JArr [])]"

text \<open>
  Lines 2 to 5 of each file: the statements \<^verbatim>\<open>implementors[crate] = [...]\<close> in the order
  they are written, as pairs of the key and the array assigned.
\<close>

fun assignments :: "impl_file \<Rightarrow> (string \<times> jsval) list" where
  "assignments DerefMut =
    [(''identity_core'', JArr
        [entry ''impl DerefMut for Url'',
         entry ''impl DerefMut for Signature'',
         entry ''impl DerefMut for SignatureValue'']),
     (''identity_credential'', JArr
        [entry ''impl&lt;T&gt; DerefMut for VerifiableCredential&lt;T&gt;'',
         entry ''impl&lt;T, U&gt; DerefMut for VerifiablePresentation&lt;T, U&gt;'']),
     (''identity_did'', JArr
        [entry ''impl&lt;T&gt; DerefMut for DIDKey&lt;T&gt;'',
         entry ''impl&lt;T&gt; DerefMut for Properties&lt;T&gt;'']),
     (''identity_iota'', JArr
        [entry ''impl&lt;T&gt; DerefMut for MessageIndex&lt;T&gt;''])]"
| "assignments TrySignature =
    [(''identity_core'', JArr []),
     (''identity_credential'', JArr
        [entry ''impl&lt;T&gt; TrySignature for VerifiableCredential&lt;T&gt;'',
         entry ''impl&lt;T, U&gt; TrySignature for VerifiablePresentation&lt;T, U&gt;'']),
     (''identity_did'', JArr
        [entry ''impl&lt;T, U, V&gt; TrySignature for Document&lt;Properties&lt;T&gt;, U, V&gt;'',
         entry ''impl&lt;T&gt; TrySignature for Properties&lt;T&gt;'']),
     (''identity_iota'', JArr
        [entry ''impl TrySignature for IotaDocument'',
         entry ''impl TrySignature for DocumentDiff''])]"
| "assignments TrySignatureMut =
    [(''identity_core'', JArr []),
     (''identity_credential'', JArr
        [entry ''impl&lt;T&gt; TrySignatureMut for VerifiableCredential&lt;T&gt;'',
         entry ''impl&lt;T, U&gt; TrySignatureMut for VerifiablePresentation&lt;T, U&gt;'']),
     (''identity_did'', JArr
        [entry ''impl&lt;T, U, V&gt; TrySignatureMut for Document&lt;Properties&lt;T&gt;, U, V&gt;'',
         entry ''impl&lt;T&gt; TrySignatureMut for Properties&lt;T&gt;'']),
     (''identity_iota'', JArr
        [entry ''impl TrySignatureMut for DocumentDiff'',
         entry ''impl TrySignatureMut for Document''])]"
| "assignments SetSignature =
    [(''identity_core'', JArr []),
     (''identity_credential'', JArr
        [entry ''impl&lt;T&gt; SetSignature for VerifiableCredential&lt;T&gt;'',
         entry ''impl&lt;T, U&gt; SetSignature for VerifiablePresentation&lt;T, U&gt;'']),
     (''identity_did'', JArr
        [entry ''impl&lt;T, U, V&gt; SetSignature for Document&lt;Properties&lt;T&gt;, U, V&gt;'',
         entry ''impl&lt;T&gt; SetSignature for Properties&lt;T&gt;'']),
     (''identity_iota'', JArr
        [entry ''impl SetSignature for IotaDocument'',
         entry ''impl SetSignature for DocumentDiff''])]"

text \<open>
  \<^verbatim>\<open>var implementors = {};\<close> followed by the assignments: the object the script holds
  when it reaches its last line.
\<close>

definition implementors :: "impl_file \<Rightarrow> object" where
  "implementors f = foldl (\<lambda>obj (k, v). set_prop obj k v) [] (assignments f)"


section \<open>Evaluating a file against a window\<close>

text \<open>
  The page's functions are outside the scripts. A \<open>host\<close> says what calling function
  \<open>i\<close> with the given arguments does to the window: it returns, leaving a window; it
  throws a value, leaving a window; or it does not return.
\<close>

datatype hresult = Returns object | Throws jsval object | Diverges

type_synonym host = "nat \<Rightarrow> jsval list \<Rightarrow> object \<Rightarrow> hresult"

datatype completion = Normal | TypeError | Thrown jsval | Diverged

text \<open>
  What the script itself does is logged: \<open>Invoke g args\<close> for a call it makes,
  \<open>Assign k v\<close> for a window property it writes. Changes a called function makes to the
  window are in the resulting window and not in the log.
\<close>

datatype event = Invoke jsval "jsval list" | Assign string jsval

record outcome =
  win :: object
  log :: "event list"
  completion :: completion

fun is_Invoke :: "event \<Rightarrow> bool" where
  "is_Invoke (Invoke g args) = True"
| "is_Invoke (Assign k v) = False"

fun is_Assign :: "event \<Rightarrow> bool" where
  "is_Assign (Assign k v) = True"
| "is_Assign (Invoke g args) = False"

text \<open>
  A call expression \<^verbatim>\<open>window.g(args)\<close>: a value that is not a function raises a
  \<^verbatim>\<open>TypeError\<close> and nothing is called.
\<close>

fun call_function :: "host \<Rightarrow> jsval \<Rightarrow> jsval list \<Rightarrow> object \<Rightarrow> outcome" where
  "call_function h (JFun i) args window =
     (case h i args window of
        Returns w' \<Rightarrow> \<lparr>win = w', log = [Invoke (JFun i) args], completion = Normal\<rparr>
      | Throws x w' \<Rightarrow> \<lparr>win = w', log = [Invoke (JFun i) args], completion = Thrown x\<rparr>
      | Diverges \<Rightarrow> \<lparr>win = window, log = [Invoke (JFun i) args], completion = Diverged\<rparr>)"
| "call_function h g args window = \<lparr>win = window, log = [], completion = TypeError\<rparr>"

text \<open>
  The whole script:
  \<^verbatim>\<open>(function() {var implementors = {}; implementors[...] = [...]; ...
  if (window.register_implementors) {window.register_implementors(implementors);}
  else {window.pending_implementors = implementors;}})()\<close>
\<close>

definition eval_file :: "host \<Rightarrow> impl_file \<Rightarrow> object \<Rightarrow> outcome" where
  "eval_file h f window =
     (let registry = JObj (implementors f) in
      if truthy (get_prop window ''register_implementors'')
      then call_function h (get_prop window ''register_implementors'') [registry] window
      else \<lparr>win = set_prop window ''pending_implementors'' registry,
            log = [Assign ''pending_implementors'' registry],
            completion = Normal\<rparr>)"

text \<open>A page function that returns at once and leaves the window as it is.\<close>

definition idle_host :: host where
  "idle_host i args window = Returns window"

text \<open>The window a host result leaves behind (the unchanged one if it never returns).\<close>

fun window_after :: "object \<Rightarrow> hresult \<Rightarrow> object" where
  "window_after w (Returns w') = w'"
| "window_after w (Throws x w') = w'"
| "window_after w Diverges = w"

fun completion_of :: "hresult \<Rightarrow> completion" where
  "completion_of (Returns w') = Normal"
| "completion_of (Throws x w') = Thrown x"
| "completion_of Diverges = Diverged"


section \<open>Descriptors\<close>

text \<open>
  The scripts hold each entry as one string, the header of a Rust \<^verbatim>\<open>impl\<close> block escaped
  for HTML. The specification reads such a string as a record of the generic parameters,
  the trait and the implementing type. The grammar of that reading,
  \<^verbatim>\<open>impl[&lt;P, ...&gt;] Trait for Type\<close> with \<^verbatim>\<open>Type ::= Name[&lt;Type, ...&gt;]\<close>, is written
  out here so that "parses as a well-formed descriptor" has a meaning that can be run on
  the strings of the files. It is the specification's notion; the scripts never parse.
\<close>

datatype token = TIdent string | TLt | TGt | TComma | TSpace

definition ident_char :: "char \<Rightarrow> bool" where
  "ident_char c = (let n = (of_char c :: nat) in
     (65 \<le> n \<and> n \<le> 90) \<or> (97 \<le> n \<and> n \<le> 122) \<or> (48 \<le> n \<and> n \<le> 57) \<or> n = 95)"

text \<open>
  Tokens of an escaped string. An angle bracket is a token only as the entity \<^verbatim>\<open>&lt;\<close> or
  \<^verbatim>\<open>&gt;\<close>; a raw bracket, any other use of \<^verbatim>\<open>&\<close> and any other character is an error.
\<close>

fun lex :: "string \<Rightarrow> token list option" where
  "lex [] = Some []"
| "lex (c # cs) =
    (if c = CHR ''&'' then
       (if take 3 cs = ''lt;'' then map_option (Cons TLt) (lex (drop 3 cs))
        else if take 3 cs = ''gt;'' then map_option (Cons TGt) (lex (drop 3 cs))
        else None)
     else if c = CHR '','' then map_option (Cons TComma) (lex cs)
     else if c = CHR '' '' then map_option (Cons TSpace) (lex cs)
     else if ident_char c then
       (case lex cs of
          None \<Rightarrow> None
        | Some (TIdent s # ts) \<Rightarrow> Some (TIdent (c # s) # ts)
        | Some ts \<Rightarrow> Some (TIdent [c] # ts))
     else None)"

text \<open>The parameter list after \<^verbatim>\<open>impl&lt;\<close>, up to and including the closing \<^verbatim>\<open>&gt;\<close>.\<close>

fun parse_params :: "token list \<Rightarrow> (string list \<times> token list) option" where
  "parse_params (TIdent p # TGt # ts) = Some ([p], ts)"
| "parse_params (TIdent p # TComma # TSpace # ts) =
     map_option (\<lambda>(ps, rest). (p # ps, rest)) (parse_params ts)"
| "parse_params ts = None"

text \<open>
  A type is a name, optionally followed by a bracketed, comma-separated, non-empty list
  of types. The recogniser keeps the bracket depth and where it stands: before a name,
  after a name, or after a closing bracket.
\<close>

datatype position = BeforeName | AfterName | AfterClose

fun type_ok :: "nat \<Rightarrow> position \<Rightarrow> token list \<Rightarrow> bool" where
  "type_ok d p [] = (p \<noteq> BeforeName \<and> d = 0)"
| "type_ok d p (TIdent s # ts) = (p = BeforeName \<and> type_ok d AfterName ts)"
| "type_ok d p (TLt # ts) = (p = AfterName \<and> type_ok (Suc d) BeforeName ts)"
| "type_ok d p (TComma # TSpace # ts) = (p \<noteq> BeforeName \<and> 0 < d \<and> type_ok d BeforeName ts)"
| "type_ok d p (TGt # ts) = (p \<noteq> BeforeName \<and> 0 < d \<and> type_ok (d - 1) AfterClose ts)"
| "type_ok d p ts = False"

text \<open>Tokens back as text, with the brackets unescaped.\<close>

fun plain :: "token list \<Rightarrow> string" where
  "plain [] = []"
| "plain (TIdent s # ts) = s @ plain ts"
| "plain (TLt # ts) = CHR ''<'' # plain ts"
| "plain (TGt # ts) = CHR ''>'' # plain ts"
| "plain (TComma # ts) = CHR '','' # plain ts"
| "plain (TSpace # ts) = CHR '' '' # plain ts"

record descriptor =
  generics :: "string list"
  trait_name :: string
  self_type :: string

fun parse_header :: "string list \<Rightarrow> token list \<Rightarrow> descriptor option" where
  "parse_header gs (TSpace # TIdent t # TSpace # TIdent kw # TSpace # ty) =
     (if kw = ''for'' \<and> type_ok 0 BeforeName ty
      then Some \<lparr>generics = gs, trait_name = t, self_type = plain ty\<rparr>
      else None)"
| "parse_header gs ts = None"

fun parse_impl :: "token list \<Rightarrow> descriptor option" where
  "parse_impl (TIdent kw # TLt # ts) =
     (if kw = ''impl'' then
        (case parse_params ts of None \<Rightarrow> None | Some (gs, rest) \<Rightarrow> parse_header gs rest)
      else None)"
| "parse_impl (TIdent kw # ts) = (if kw = ''impl'' then parse_header [] ts else None)"
| "parse_impl ts = None"

definition parse_descriptor :: "string \<Rightarrow> descriptor option" where
  "parse_descriptor s = (case lex s of None \<Rightarrow> None | Some ts \<Rightarrow> parse_impl ts)"

text \<open>The way back: a descriptor written as the escaped string.\<close>

definition html_escape :: "string \<Rightarrow> string" where
  "html_escape s = concat (map (\<lambda>c. if c = CHR ''<'' then ''&lt;''
                                    else if c = CHR ''>'' then ''&gt;'' else [c]) s)"

fun commas :: "string list \<Rightarrow> string" where
  "commas [] = []"
| "commas [p] = p"
| "commas (p # ps) = p @ '', '' @ commas ps"

definition render_descriptor :: "descriptor \<Rightarrow> string" where
  "render_descriptor d =
     ''impl'' @ (if generics d = [] then [] else ''&lt;'' @ commas (generics d) @ ''&gt;'')
       @ '' '' @ trait_name d @ '' for '' @ html_escape (self_type d)"


section \<open>Reading a registry\<close>

text \<open>The \<^verbatim>\<open>text\<close> field of a record, when the value is an object that has one.\<close>

fun text_of :: "jsval \<Rightarrow> string option" where
  "text_of (JObj ps) = (case get_prop ps ''text'' of JStr s \<Rightarrow> Some s | _ \<Rightarrow> None)"
| "text_of v = None"

definition descriptor_of :: "jsval \<Rightarrow> descriptor option" where
  "descriptor_of r = (case text_of r of None \<Rightarrow> None | Some s \<Rightarrow> parse_descriptor s)"

text \<open>
  The list a registry holds for a crate, as the texts of its records and as their
  descriptors, in order; \<open>None\<close> when the value is not an array or a record cannot be
  read.
\<close>

definition crate_texts :: "object \<Rightarrow> string \<Rightarrow> string list option" where
  "crate_texts reg k =
     (case get_prop reg k of JArr rs \<Rightarrow> those (map text_of rs) | _ \<Rightarrow> None)"

definition crate_descriptors :: "object \<Rightarrow> string \<Rightarrow> descriptor list option" where
  "crate_descriptors reg k =
     (case get_prop reg k of JArr rs \<Rightarrow> those (map descriptor_of rs) | _ \<Rightarrow> None)"

text \<open>
  A crate's list is a listing for trait \<open>t\<close> when every record parses, names \<open>t\<close>, and
  is given back unchanged by writing its descriptor out again.
\<close>

definition listing_for :: "string \<Rightarrow> object \<Rightarrow> string \<Rightarrow> bool" where
  "listing_for t reg k =
     (case crate_descriptors reg k of
        None \<Rightarrow> False
      | Some ds \<Rightarrow> list_all (\<lambda>d. trait_name d = t) ds
                   \<and> crate_texts reg k = Some (map render_descriptor ds))"

text \<open>
  An escaped, well-formed text: no raw angle bracket, and the string parses.
\<close>

definition well_formed_text :: "string \<Rightarrow> bool" where
  "well_formed_text s =
     (CHR ''<'' \<notin> set s \<and> CHR ''>'' \<notin> set s \<and> parse_descriptor s \<noteq> None)"

definition escaped_listing :: "object \<Rightarrow> string \<Rightarrow> bool" where
  "escaped_listing reg k =
     (case crate_texts reg k of None \<Rightarrow> False | Some ts \<Rightarrow> list_all well_formed_text ts)"

text \<open>
  The shape of a record: the three fields \<^verbatim>\<open>text\<close>, \<^verbatim>\<open>synthetic\<close>, \<^verbatim>\<open>types\<close> and no other,
  a string, \<^verbatim>\<open>false\<close> and the empty array.
\<close>

fun is_string :: "jsval \<Rightarrow> bool" where
  "is_string (JStr s) = True"
| "is_string v = False"

fun record_shape :: "jsval \<Rightarrow> bool" where
  "record_shape (JObj ps) =
     (map fst ps = [''text'', ''synthetic'', ''types'']
      \<and> is_string (get_prop ps ''text'')
      \<and> get_prop ps ''synthetic'' = JBool False
      \<and> get_prop ps ''types'' = JArr [])"
| "record_shape v = False"

fun records_shape :: "jsval \<Rightarrow> bool" where
  "records_shape (JArr rs) = list_all record_shape rs"
| "records_shape v = False"

text \<open>The four crate names.\<close>

definition crates :: "string list" where
  "crates = [''identity_core'', ''identity_credential'', ''identity_did'', ''identity_iota'']"


text \<open>
  The traits named by the records of a registry, crate by crate in the order of its keys;
  \<open>None\<close> when some record cannot be read.
\<close>

definition traits_named :: "object \<Rightarrow> string list option" where
  "traits_named reg =
     map_option (map trait_name \<circ> concat) (those (map (crate_descriptors reg) (map fst reg)))"


section \<open>Crate keys\<close>

lemma keys_DerefMut:
  "map fst (implementors DerefMut) =
     [''identity_core'', ''identity_credential'', ''identity_did'', ''identity_iota'']"
  by code_simp

lemma keys_TrySignature:
  "map fst (implementors TrySignature) =
     [''identity_core'', ''identity_credential'', ''identity_did'', ''identity_iota'']"
  by code_simp

lemma keys_TrySignatureMut:
  "map fst (implementors TrySignatureMut) =
     [''identity_core'', ''identity_credential'', ''identity_did'', ''identity_iota'']"
  by code_simp

lemma keys_SetSignature:
  "map fst (implementors SetSignature) =
     [''identity_core'', ''identity_credential'', ''identity_did'', ''identity_iota'']"
  by code_simp

lemma keys_implementors:
  "map fst (implementors f) =
     [''identity_core'', ''identity_credential'', ''identity_did'', ''identity_iota'']"
  by (cases f) (simp_all only: keys_DerefMut keys_TrySignature keys_TrySignatureMut keys_SetSignature)

lemma assigned_keys:
  "map fst (assignments f) =
     [''identity_core'', ''identity_credential'', ''identity_did'', ''identity_iota'']"
  by (cases f) simp_all

text \<open>
  C4. In each of the four files the crate keys are pairwise distinct: the keys assigned by
  lines 2 to 5 contain no repetition, so no crate name is given an implementor list twice,
  and the object built has each key once.
\<close>

theorem crate_keys_distinct:
  "distinct (map fst (assignments f)) \<and> distinct (map fst (implementors f))"
  by (simp only: assigned_keys keys_implementors) simp


section \<open>The listings\<close>

lemma traits_DerefMut:
  "traits_named (implementors DerefMut) = Some (replicate 8 ''DerefMut'')"
  by code_simp

lemma traits_TrySignature:
  "traits_named (implementors TrySignature) = Some (replicate 6 ''TrySignature'')"
  by code_simp

lemma traits_TrySignatureMut:
  "traits_named (implementors TrySignatureMut) = Some (replicate 6 ''TrySignatureMut'')"
  by code_simp

lemma traits_SetSignature:
  "traits_named (implementors SetSignature) = Some (replicate 6 ''SetSignature'')"
  by code_simp

lemma traits_named_file:
  "map_option set (traits_named (implementors f)) = Some {trait_of f}"
  by (cases f)
    (simp_all add: traits_DerefMut traits_TrySignature traits_TrySignatureMut
       traits_SetSignature)

text \<open>
  C3. Each of the four files enumerates implementing types for exactly the crates
  identity_core, identity_credential, identity_did and identity_iota: the set of keys of
  the registry object it builds is that set of four names. Each file indexes exactly one
  of the traits DerefMut, TrySignature, TrySignatureMut, SetSignature: the set of traits
  named by its records is the singleton of the trait in the file's name.
\<close>

theorem registry_crates_and_trait:
  "set (map fst (implementors f)) =
     {''identity_core'', ''identity_credential'', ''identity_did'', ''identity_iota''}
   \<and> trait_of f \<in> {''DerefMut'', ''TrySignature'', ''TrySignatureMut'', ''SetSignature''}
   \<and> map_option set (traits_named (implementors f)) = Some {trait_of f}"
proof -
  have "trait_of f \<in> {''DerefMut'', ''TrySignature'', ''TrySignatureMut'', ''SetSignature''}"
    by (cases f) simp_all
  then show ?thesis
    by (simp add: keys_implementors traits_named_file)
qed

lemma listing_DerefMut:
  "list_all (listing_for ''DerefMut'' (implementors DerefMut)) crates"
  by code_simp

lemma listing_TrySignature:
  "list_all (listing_for ''TrySignature'' (implementors TrySignature)) crates"
  by code_simp

lemma listing_TrySignatureMut:
  "list_all (listing_for ''TrySignatureMut'' (implementors TrySignatureMut)) crates"
  by code_simp

lemma listing_SetSignature:
  "list_all (listing_for ''SetSignature'' (implementors SetSignature)) crates"
  by code_simp

text \<open>
  C5. The data of each file is a mapping from crate name to an ordered sequence of
  (implementing type, trait, generic parameter list) records: under every key of the
  registry is an array whose every record has a text that parses into a descriptor, the
  trait of every descriptor is the trait the file indexes, and writing the descriptors out
  again gives the texts back in the same order, so the three components are recovered
  without loss.
\<close>

theorem listings_are_descriptor_records:
  "list_all (listing_for (trait_of f) (implementors f)) (map fst (implementors f))"
  by (cases f)
    (simp_all only: keys_implementors trait_of.simps crates_def [symmetric]
       listing_DerefMut listing_TrySignature listing_TrySignatureMut listing_SetSignature)

lemma escaped_DerefMut: "list_all (escaped_listing (implementors DerefMut)) crates"
  by code_simp

lemma escaped_TrySignature: "list_all (escaped_listing (implementors TrySignature)) crates"
  by code_simp

lemma escaped_TrySignatureMut:
  "list_all (escaped_listing (implementors TrySignatureMut)) crates"
  by code_simp

lemma escaped_SetSignature: "list_all (escaped_listing (implementors SetSignature)) crates"
  by code_simp

text \<open>
  C6. Every listed entry is a well-formed HTML-escaped descriptor string: in the text of
  every record under every key of every file there is no raw \<^verbatim>\<open><\<close> and no raw \<^verbatim>\<open>>\<close>
  (brackets occur only as the entities, which the tokeniser accepts, while it rejects any
  other use of the ampersand), and the string parses as an impl descriptor.
\<close>

theorem texts_are_escaped_descriptors:
  "list_all (escaped_listing (implementors f)) (map fst (implementors f))"
  by (cases f)
    (simp_all only: keys_implementors crates_def [symmetric]
       escaped_DerefMut escaped_TrySignature escaped_TrySignatureMut escaped_SetSignature)

lemma shape_DerefMut: "list_all (\<lambda>(k, v). records_shape v) (implementors DerefMut)"
  by code_simp

lemma shape_TrySignature: "list_all (\<lambda>(k, v). records_shape v) (implementors TrySignature)"
  by code_simp

lemma shape_TrySignatureMut:
  "list_all (\<lambda>(k, v). records_shape v) (implementors TrySignatureMut)"
  by code_simp

lemma shape_SetSignature: "list_all (\<lambda>(k, v). records_shape v) (implementors SetSignature)"
  by code_simp

lemma core_TrySignature: "get_prop (implementors TrySignature) ''identity_core'' = JArr []"
  by code_simp

lemma core_TrySignatureMut:
  "get_prop (implementors TrySignatureMut) ''identity_core'' = JArr []"
  by code_simp

lemma core_SetSignature: "get_prop (implementors SetSignature) ''identity_core'' = JArr []"
  by code_simp

text \<open>
  C9. Every record in every crate list of all four files has exactly the three fields
  text, synthetic and types, with synthetic equal to false and types equal to the empty
  array; and in the three signature-trait files (TrySignature, TrySignatureMut,
  SetSignature) the key identity_core maps to the empty array.
\<close>

theorem record_fields_and_empty_core:
  "list_all (\<lambda>(k, v). records_shape v) (implementors f)
   \<and> get_prop (implementors TrySignature) ''identity_core'' = JArr []
   \<and> get_prop (implementors TrySignatureMut) ''identity_core'' = JArr []
   \<and> get_prop (implementors SetSignature) ''identity_core'' = JArr []"
proof -
  have "list_all (\<lambda>(k, v). records_shape v) (implementors f)"
    by (cases f)
      (simp_all only: shape_DerefMut shape_TrySignature shape_TrySignatureMut
         shape_SetSignature)
  then show ?thesis
    by (simp only: core_TrySignature core_TrySignatureMut core_SetSignature simp_thms)
qed

lemma types_TrySignature:
  "map (\<lambda>k. map_option (map self_type) (crate_descriptors (implementors TrySignature) k))
       crates =
     [Some [],
      Some [''VerifiableCredential<T>'', ''VerifiablePresentation<T, U>''],
      Some [''Document<Properties<T>, U, V>'', ''Properties<T>''],
      Some [''IotaDocument'', ''DocumentDiff'']]"
  by code_simp

lemma types_SetSignature:
  "map (\<lambda>k. map_option (map self_type) (crate_descriptors (implementors SetSignature) k))
       crates =
     [Some [],
      Some [''VerifiableCredential<T>'', ''VerifiablePresentation<T, U>''],
      Some [''Document<Properties<T>, U, V>'', ''Properties<T>''],
      Some [''IotaDocument'', ''DocumentDiff'']]"
  by code_simp

lemma retarget_TrySignature:
  "list_all
     (\<lambda>k. crate_descriptors (implementors SetSignature) k \<noteq> None
        \<and> map_option (map (\<lambda>d. d\<lparr>trait_name := ''SetSignature''\<rparr>))
            (crate_descriptors (implementors TrySignature) k)
          = crate_descriptors (implementors SetSignature) k
        \<and> map_option (map (\<lambda>d. render_descriptor (d\<lparr>trait_name := ''SetSignature''\<rparr>)))
            (crate_descriptors (implementors TrySignature) k)
          = crate_texts (implementors SetSignature) k)
     crates"
  by code_simp

text \<open>
  C8. The TrySignature and SetSignature listings coincide crate by crate. Both files
  have the same keys; for every key the descriptors of trait.TrySignature.js, with the
  trait name replaced by SetSignature, are the descriptors of trait.SetSignature.js in the
  same order, and written out they are its texts; and the implementing types are, in both
  files: none for identity_core; VerifiableCredential<T>, VerifiablePresentation<T, U> for
  identity_credential; Document<Properties<T>, U, V>, Properties<T> for identity_did;
  IotaDocument, DocumentDiff for identity_iota.
\<close>

theorem try_and_set_signature_coincide:
  "map fst (implementors TrySignature) = map fst (implementors SetSignature)
   \<and> list_all
       (\<lambda>k. crate_descriptors (implementors SetSignature) k \<noteq> None
          \<and> map_option (map (\<lambda>d. d\<lparr>trait_name := ''SetSignature''\<rparr>))
              (crate_descriptors (implementors TrySignature) k)
            = crate_descriptors (implementors SetSignature) k
          \<and> map_option (map (\<lambda>d. render_descriptor (d\<lparr>trait_name := ''SetSignature''\<rparr>)))
              (crate_descriptors (implementors TrySignature) k)
            = crate_texts (implementors SetSignature) k)
       (map fst (implementors TrySignature))
   \<and> map (\<lambda>k. map_option (map self_type) (crate_descriptors (implementors TrySignature) k))
         (map fst (implementors TrySignature)) =
       [Some [],
        Some [''VerifiableCredential<T>'', ''VerifiablePresentation<T, U>''],
        Some [''Document<Properties<T>, U, V>'', ''Properties<T>''],
        Some [''IotaDocument'', ''DocumentDiff'']]
   \<and> map (\<lambda>k. map_option (map self_type) (crate_descriptors (implementors SetSignature) k))
         (map fst (implementors SetSignature)) =
       [Some [],
        Some [''VerifiableCredential<T>'', ''VerifiablePresentation<T, U>''],
        Some [''Document<Properties<T>, U, V>'', ''Properties<T>''],
        Some [''IotaDocument'', ''DocumentDiff'']]"
  by (simp only: keys_TrySignature keys_SetSignature crates_def [symmetric]
        retarget_TrySignature types_TrySignature types_SetSignature simp_thms)


section \<open>Properties of reading and writing\<close>

lemma get_set_same: "get_prop (set_prop w k v) k = v"
  by (simp add: get_prop_def set_prop_def update_conv')

lemma get_set_other: "k' \<noteq> k \<Longrightarrow> get_prop (set_prop w k v) k' = get_prop w k'"
  by (simp add: get_prop_def set_prop_def update_conv')

lemma set_set_same: "set_prop (set_prop w k v) k v' = set_prop w k v'"
  by (simp add: set_prop_def)

lemma keys_set_prop: "fst ` set (set_prop w k v) = insert k (fst ` set w)"
  by (simp add: set_prop_def dom_update)


section \<open>The three ways through the last line\<close>

lemma truthy_non_function:
  "\<not> is_function g \<Longrightarrow> call_function h g args w = \<lparr>win = w, log = [], completion = TypeError\<rparr>"
  by (cases g) simp_all

lemma eval_falsy:
  "\<not> truthy (get_prop w ''register_implementors'') \<Longrightarrow>
     eval_file h f w =
       \<lparr>win = set_prop w ''pending_implementors'' (JObj (implementors f)),
        log = [Assign ''pending_implementors'' (JObj (implementors f))],
        completion = Normal\<rparr>"
  by (simp add: eval_file_def Let_def)

lemma eval_function:
  "get_prop w ''register_implementors'' = JFun i \<Longrightarrow>
     eval_file h f w =
       \<lparr>win = window_after w (h i [JObj (implementors f)] w),
        log = [Invoke (JFun i) [JObj (implementors f)]],
        completion = completion_of (h i [JObj (implementors f)] w)\<rparr>"
  by (cases "h i [JObj (implementors f)] w") (simp_all add: eval_file_def Let_def)

lemma eval_non_function:
  "truthy (get_prop w ''register_implementors'') \<Longrightarrow>
   \<not> is_function (get_prop w ''register_implementors'') \<Longrightarrow>
     eval_file h f w = \<lparr>win = w, log = [], completion = TypeError\<rparr>"
  by (simp add: eval_file_def Let_def truthy_non_function)

lemma arrays_DerefMut: "list_all (\<lambda>(k, v). is_array v) (implementors DerefMut)"
  by code_simp

lemma arrays_TrySignature: "list_all (\<lambda>(k, v). is_array v) (implementors TrySignature)"
  by code_simp

lemma arrays_TrySignatureMut: "list_all (\<lambda>(k, v). is_array v) (implementors TrySignatureMut)"
  by code_simp

lemma arrays_SetSignature: "list_all (\<lambda>(k, v). is_array v) (implementors SetSignature)"
  by code_simp

lemma arrays_implementors: "list_all (\<lambda>(k, v). is_array v) (implementors f)"
  by (cases f)
    (simp_all only: arrays_DerefMut arrays_TrySignature arrays_TrySignatureMut
       arrays_SetSignature)


section \<open>The handshake\<close>

text \<open>
  C1. For every initial window and every one of the four files, evaluation first builds a
  registry object whose keys are crate names and whose values are arrays, and then:
  if \<^verbatim>\<open>window.register_implementors\<close> is a function, the script calls it exactly once, with
  that registry as its only argument, writes nothing itself, and the window afterwards is
  the one the function left, so \<^verbatim>\<open>window.pending_implementors\<close> is as the function left it;
  if the value is truthy but not a function, the call raises a \<^verbatim>\<open>TypeError\<close>, nothing is
  called and the window is unchanged; if it is falsy, \<^verbatim>\<open>window.pending_implementors\<close> is
  assigned the registry.
\<close>

theorem handshake:
  "map fst (implementors f) = crates
   \<and> list_all (\<lambda>(k, v). is_array v) (implementors f)
   \<and> (get_prop w ''register_implementors'' = JFun i \<longrightarrow>
        log (eval_file h f w) = [Invoke (JFun i) [JObj (implementors f)]]
        \<and> win (eval_file h f w) = window_after w (h i [JObj (implementors f)] w)
        \<and> completion (eval_file h f w) = completion_of (h i [JObj (implementors f)] w))
   \<and> (truthy (get_prop w ''register_implementors'')
        \<and> \<not> is_function (get_prop w ''register_implementors'') \<longrightarrow>
        log (eval_file h f w) = [] \<and> win (eval_file h f w) = w
        \<and> completion (eval_file h f w) = TypeError)
   \<and> (\<not> truthy (get_prop w ''register_implementors'') \<longrightarrow>
        log (eval_file h f w) = [Assign ''pending_implementors'' (JObj (implementors f))]
        \<and> win (eval_file h f w) = set_prop w ''pending_implementors'' (JObj (implementors f))
        \<and> completion (eval_file h f w) = Normal)"
  by (simp add: keys_implementors crates_def arrays_implementors eval_function
        eval_non_function eval_falsy)

theorem handshake_witness:
  "get_prop [(''register_implementors'', JFun 0), (''pending_implementors'', JNum 7)]
       ''register_implementors'' = JFun 0
   \<and> log (eval_file idle_host DerefMut
        [(''register_implementors'', JFun 0), (''pending_implementors'', JNum 7)])
       = [Invoke (JFun 0) [JObj (implementors DerefMut)]]
   \<and> win (eval_file idle_host DerefMut
        [(''register_implementors'', JFun 0), (''pending_implementors'', JNum 7)])
       = [(''register_implementors'', JFun 0), (''pending_implementors'', JNum 7)]
   \<and> \<not> truthy (get_prop [(''pending_implementors'', JNum 7)] ''register_implementors'')
   \<and> win (eval_file idle_host DerefMut [(''pending_implementors'', JNum 7)])
       = [(''pending_implementors'', JObj (implementors DerefMut))]
   \<and> truthy (get_prop [(''register_implementors'', JBool True)] ''register_implementors'')
   \<and> completion (eval_file idle_host DerefMut [(''register_implementors'', JBool True)])
       = TypeError"
  using
    handshake [of DerefMut
      "[(''register_implementors'', JFun 0), (''pending_implementors'', JNum 7)]" 0 idle_host]
    handshake [of DerefMut "[(''pending_implementors'', JNum 7)]" 0 idle_host]
    handshake [of DerefMut "[(''register_implementors'', JBool True)]" 0 idle_host]
  by (simp add: get_prop_def set_prop_def idle_host_def)


text \<open>
  Without the restriction to functions C1 fails: with the number 1 in
  \<^verbatim>\<open>register_implementors\<close> the condition of the \<^verbatim>\<open>if\<close> holds, no call is made and a
  \<^verbatim>\<open>TypeError\<close> is raised.
\<close>

theorem handshake_counterexample:
  "truthy (get_prop [(''register_implementors'', JNum 1)] ''register_implementors'')
   \<and> filter is_Invoke
        (log (eval_file idle_host DerefMut [(''register_implementors'', JNum 1)])) = []
   \<and> completion (eval_file idle_host DerefMut [(''register_implementors'', JNum 1)])
       = TypeError"
  by (simp add: eval_file_def Let_def get_prop_def)


section \<open>Two files, no callback yet\<close>

lemma url_in_DerefMut:
  "''impl DerefMut for Url'' \<in> set (strings_in (JObj (implementors DerefMut)))"
  by code_simp

lemma url_not_in_TrySignatureMut:
  "''impl DerefMut for Url''
     \<notin> set (strings_in (JObj [(''pending_implementors'', JObj (implementors TrySignatureMut))]))"
  by code_simp

lemma two_files_from_empty:
  "win (eval_file idle_host TrySignatureMut (win (eval_file idle_host DerefMut [])))
     = [(''pending_implementors'', JObj (implementors TrySignatureMut))]"
  by (simp add: eval_file_def Let_def get_prop_def set_prop_def)

text \<open>
  C2. For every window in which \<^verbatim>\<open>register_implementors\<close> is falsy, evaluating one file
  leaves that file's registry in \<^verbatim>\<open>window.pending_implementors\<close>; evaluating a second file
  afterwards, whichever two files and in whichever order, leaves exactly the window that
  evaluating the second file alone would have left: \<^verbatim>\<open>pending_implementors\<close> holds the
  registry of the file evaluated last and the earlier registry has been overwritten.
\<close>

theorem pending_overwritten:
  assumes "\<not> truthy (get_prop w ''register_implementors'')"
  shows "win (eval_file h f w) = set_prop w ''pending_implementors'' (JObj (implementors f))
    \<and> get_prop (win (eval_file h f w)) ''pending_implementors'' = JObj (implementors f)
    \<and> win (eval_file h g (win (eval_file h f w)))
        = set_prop w ''pending_implementors'' (JObj (implementors g))
    \<and> get_prop (win (eval_file h g (win (eval_file h f w)))) ''pending_implementors''
        = JObj (implementors g)"
proof -
  let ?w1 = "win (eval_file h f w)"
  have first: "?w1 = set_prop w ''pending_implementors'' (JObj (implementors f))"
    using assms by (simp add: eval_falsy)
  have "get_prop ?w1 ''register_implementors'' = get_prop w ''register_implementors''"
    by (simp add: first get_set_other)
  with assms have "\<not> truthy (get_prop ?w1 ''register_implementors'')"
    by simp
  then have "win (eval_file h g ?w1)
      = set_prop ?w1 ''pending_implementors'' (JObj (implementors g))"
    by (simp add: eval_falsy)
  then have second: "win (eval_file h g ?w1)
      = set_prop w ''pending_implementors'' (JObj (implementors g))"
    by (simp add: first set_set_same)
  have third: "get_prop ?w1 ''pending_implementors'' = JObj (implementors f)"
    by (simp only: first get_set_same)
  have fourth: "get_prop (win (eval_file h g ?w1)) ''pending_implementors''
      = JObj (implementors g)"
    by (simp only: second get_set_same)
  from first second third fourth show ?thesis
    by blast
qed

theorem pending_overwritten_witness:
  "\<not> truthy (get_prop [(''title'', JStr ''docs'')] ''register_implementors'')
   \<and> win (eval_file idle_host TrySignature
        (win (eval_file idle_host SetSignature [(''title'', JStr ''docs'')])))
       = [(''title'', JStr ''docs''),
          (''pending_implementors'', JObj (implementors TrySignature))]"
proof -
  have falsy: "\<not> truthy (get_prop [(''title'', JStr ''docs'')] ''register_implementors'')"
    by (simp add: get_prop_def)
  from pending_overwritten [OF falsy, of idle_host SetSignature TrySignature]
  have "win (eval_file idle_host TrySignature
        (win (eval_file idle_host SetSignature [(''title'', JStr ''docs'')])))
      = set_prop [(''title'', JStr ''docs'')] ''pending_implementors''
          (JObj (implementors TrySignature))"
    by (rule conjunct1 [OF conjunct2 [OF conjunct2]])
  with falsy show ?thesis
    by (simp add: set_prop_def)
qed


text \<open>
  The registries of two files are not both kept (C2 without the overwriting). Starting
  from the empty window, after \<^verbatim>\<open>trait.DerefMut.js\<close> and then
  \<^verbatim>\<open>trait.TrySignatureMut.js\<close> the window has the single property
  \<^verbatim>\<open>pending_implementors\<close>, holding the second registry, and the first entry of the first
  file occurs nowhere in it.
\<close>

theorem first_registry_lost_counterexample:
  "\<not> truthy (get_prop [] ''register_implementors'')
   \<and> ''impl DerefMut for Url'' \<in> set (strings_in (JObj (implementors DerefMut)))
   \<and> win (eval_file idle_host TrySignatureMut (win (eval_file idle_host DerefMut [])))
       = [(''pending_implementors'', JObj (implementors TrySignatureMut))]
   \<and> ''impl DerefMut for Url''
       \<notin> set (strings_in (JObj
           (win (eval_file idle_host TrySignatureMut (win (eval_file idle_host DerefMut []))))))"
  by (simp only: two_files_from_empty url_in_DerefMut url_not_in_TrySignatureMut)
     (simp add: get_prop_def)


section \<open>Completion\<close>

text \<open>
  C7. Evaluating any of the four files completes normally for every window in which
  \<^verbatim>\<open>register_implementors\<close> is falsy, and for every window in which it is a function that
  returns normally when called with the registry. Building the registry cannot fail. When
  the value is truthy but not a function, evaluation raises a \<^verbatim>\<open>TypeError\<close>.
\<close>

theorem normal_completion:
  "(\<not> truthy (get_prop w ''register_implementors'') \<longrightarrow>
      completion (eval_file h f w) = Normal)
   \<and> (get_prop w ''register_implementors'' = JFun i
        \<and> h i [JObj (implementors f)] w = Returns w' \<longrightarrow>
      completion (eval_file h f w) = Normal)
   \<and> (truthy (get_prop w ''register_implementors'')
        \<and> \<not> is_function (get_prop w ''register_implementors'') \<longrightarrow>
      completion (eval_file h f w) = TypeError)"
  by (simp add: eval_falsy eval_function eval_non_function)

theorem normal_completion_witness:
  "\<not> truthy (get_prop [(''register_implementors'', JNum 0)] ''register_implementors'')
   \<and> completion (eval_file idle_host TrySignatureMut [(''register_implementors'', JNum 0)])
       = Normal
   \<and> get_prop [(''register_implementors'', JFun 3)] ''register_implementors'' = JFun 3
   \<and> idle_host 3 [JObj (implementors TrySignatureMut)] [(''register_implementors'', JFun 3)]
       = Returns [(''register_implementors'', JFun 3)]
   \<and> completion (eval_file idle_host TrySignatureMut [(''register_implementors'', JFun 3)])
       = Normal
   \<and> truthy (get_prop [(''register_implementors'', JArr [])] ''register_implementors'')
   \<and> completion (eval_file idle_host TrySignatureMut [(''register_implementors'', JArr [])])
       = TypeError"
  using
    normal_completion [of "[(''register_implementors'', JNum 0)]" idle_host TrySignatureMut 0 "[]"]
    normal_completion [of "[(''register_implementors'', JFun 3)]" idle_host TrySignatureMut 3
      "[(''register_implementors'', JFun 3)]"]
    normal_completion [of "[(''register_implementors'', JArr [])]" idle_host TrySignatureMut 0 "[]"]
  by (simp add: get_prop_def idle_host_def)


text \<open>
  Over all windows C7 fails, even on a page whose functions all return normally: with
  the string \<^verbatim>\<open>"yes"\<close> in \<^verbatim>\<open>register_implementors\<close>, evaluation raises a
  \<^verbatim>\<open>TypeError\<close>.
\<close>

theorem type_error_counterexample:
  "truthy (get_prop [(''register_implementors'', JStr ''yes'')] ''register_implementors'')
   \<and> completion
        (eval_file idle_host TrySignatureMut [(''register_implementors'', JStr ''yes'')])
       = TypeError"
  by (simp add: eval_file_def Let_def get_prop_def)


section \<open>What the script writes\<close>

text \<open>
  C10. Evaluating any of the four files changes no window property other than, when
  \<^verbatim>\<open>register_implementors\<close> is absent (falsy, which is what the script tests), the single
  property \<^verbatim>\<open>pending_implementors\<close>: then that assignment is the script's only write, every
  other property \<open>k\<close> reads as before, and the keys of the window are the old keys
  together with \<^verbatim>\<open>pending_implementors\<close>, so nothing is deleted and the registry appears
  under no other name. When \<^verbatim>\<open>register_implementors\<close> is present (truthy) the script itself
  writes no window property: the window afterwards is the one the called function left,
  or the unchanged one when the value is not a function.
\<close>

theorem window_frame:
  "(\<not> truthy (get_prop w ''register_implementors'') \<longrightarrow>
      filter is_Assign (log (eval_file h f w))
        = [Assign ''pending_implementors'' (JObj (implementors f))]
      \<and> win (eval_file h f w) = set_prop w ''pending_implementors'' (JObj (implementors f))
      \<and> (k \<noteq> ''pending_implementors'' \<longrightarrow> get_prop (win (eval_file h f w)) k = get_prop w k)
      \<and> set (map fst (win (eval_file h f w)))
          = insert ''pending_implementors'' (set (map fst w)))
   \<and> (truthy (get_prop w ''register_implementors'') \<longrightarrow>
      filter is_Assign (log (eval_file h f w)) = []
      \<and> (get_prop w ''register_implementors'' = JFun i \<longrightarrow>
            win (eval_file h f w) = window_after w (h i [JObj (implementors f)] w))
      \<and> (\<not> is_function (get_prop w ''register_implementors'') \<longrightarrow>
            win (eval_file h f w) = w))"
proof (cases "truthy (get_prop w ''register_implementors'')")
  case False
  then show ?thesis
    by (simp add: eval_falsy get_set_other keys_set_prop)
next
  case True
  show ?thesis
  proof (cases "is_function (get_prop w ''register_implementors'')")
    case False
    with True show ?thesis
      by (auto simp add: eval_non_function)
  next
    case True
    then obtain j where "get_prop w ''register_implementors'' = JFun j"
      by (cases "get_prop w ''register_implementors''") simp_all
    then show ?thesis
      by (simp add: eval_function)
  qed
qed


theorem window_frame_witness:
  "\<not> truthy (get_prop [(''title'', JStr ''docs''), (''pending_implementors'', JNull)]
        ''register_implementors'')
   \<and> win (eval_file idle_host SetSignature
        [(''title'', JStr ''docs''), (''pending_implementors'', JNull)])
       = [(''title'', JStr ''docs''),
          (''pending_implementors'', JObj (implementors SetSignature))]
   \<and> get_prop (win (eval_file idle_host SetSignature
        [(''title'', JStr ''docs''), (''pending_implementors'', JNull)])) ''title''
       = JStr ''docs''
   \<and> truthy (get_prop [(''register_implementors'', JFun 1), (''title'', JStr ''docs'')]
        ''register_implementors'')
   \<and> filter is_Assign (log (eval_file idle_host SetSignature
        [(''register_implementors'', JFun 1), (''title'', JStr ''docs'')])) = []
   \<and> win (eval_file idle_host SetSignature
        [(''register_implementors'', JFun 1), (''title'', JStr ''docs'')])
       = [(''register_implementors'', JFun 1), (''title'', JStr ''docs'')]"
  using
    window_frame [of "[(''title'', JStr ''docs''), (''pending_implementors'', JNull)]" idle_host
      SetSignature "''title''" 0]
    window_frame [of "[(''register_implementors'', JFun 1), (''title'', JStr ''docs'')]" idle_host
      SetSignature "''title''" 1]
  by (simp add: get_prop_def set_prop_def idle_host_def)

end
